theory Spec2Isabelle
  imports Complex_Main "HOL-Library.Multiset"
begin

section \<open>Numbers\<close>

text \<open>
  The tensors of \<^verbatim>\<open>vampnet/modules/transformer.py\<close> hold floating point numbers.
  They are modelled as real numbers extended by the two infinities, which the code
  produces on purpose (\<^verbatim>\<open>torch.inf\<close> as the confidence of a committed token,
  \<^verbatim>\<open>-float("Inf")\<close> as a filtered logit). Rounding is not modelled.
\<close>

datatype xreal = NegInf | Fin real | PosInf

instantiation xreal :: linorder
begin

fun less_eq_xreal :: "xreal \<Rightarrow> xreal \<Rightarrow> bool" where
  "less_eq_xreal NegInf y = True"
| "less_eq_xreal (Fin a) NegInf = False"
| "less_eq_xreal (Fin a) (Fin b) = (a \<le> b)"
| "less_eq_xreal (Fin a) PosInf = True"
| "less_eq_xreal PosInf NegInf = False"
| "less_eq_xreal PosInf (Fin b) = False"
| "less_eq_xreal PosInf PosInf = True"

definition less_xreal :: "xreal \<Rightarrow> xreal \<Rightarrow> bool" where
  "less_xreal x y = (x \<le> y \<and> \<not> y \<le> x)"

instance
proof
  fix x y z :: xreal
  show "(x < y) = (x \<le> y \<and> \<not> y \<le> x)" by (simp add: less_xreal_def)
  show "x \<le> x" by (cases x) simp_all
  show "x \<le> y \<Longrightarrow> y \<le> z \<Longrightarrow> x \<le> z" by (cases x; cases y; cases z) simp_all
  show "x \<le> y \<Longrightarrow> y \<le> x \<Longrightarrow> x = y" by (cases x; cases y) simp_all
  show "x \<le> y \<or> y \<le> x" by (cases x; cases y) auto
qed

end

datatype error = AssertionError | IndexError | ShapeError | UnboundLocalError | NotANumber

section \<open>Confidence-based remasking\<close>

text \<open>
  \<^verbatim>\<open>gumbel_noise_like(t)\<close>: \<^verbatim>\<open>-log(-log(noise))\<close> for a fresh uniform draw
  \<^verbatim>\<open>noise\<close> of the shape of \<^verbatim>\<open>t\<close>. The draw is the argument \<open>u\<close>, one value per position.
\<close>

definition gumbel_noise_like :: "(nat \<Rightarrow> real) \<Rightarrow> nat \<Rightarrow> real list" where
  "gumbel_noise_like u n = map (\<lambda>j. - ln (- ln (u j))) [0..<n]"

text \<open>
  \<^verbatim>\<open>torch.log\<close> on a confidence: \<open>None\<close> stands for NaN (the logarithm of a negative
  number), which no probability and no \<^verbatim>\<open>torch.inf\<close> produces.
\<close>

fun log_x :: "xreal \<Rightarrow> xreal option" where
  "log_x NegInf = None"
| "log_x (Fin p) = (if p < 0 then None else if p = 0 then Some NegInf else Some (Fin (ln p)))"
| "log_x PosInf = Some PosInf"

text \<open>Adding a finite number to an extended one.\<close>

fun add_fin :: "xreal \<Rightarrow> real \<Rightarrow> xreal" where
  "add_fin NegInf r = NegInf"
| "add_fin (Fin a) r = Fin (a + r)"
| "add_fin PosInf r = PosInf"

text \<open>
  \<^verbatim>\<open>confidence = torch.log(probs) + temperature * gumbel_noise_like(probs)\<close>, for one row.
  The result is \<open>None\<close> when an entry would be NaN.
\<close>

definition perturbed :: "xreal list \<Rightarrow> real \<Rightarrow> (nat \<Rightarrow> real) \<Rightarrow> xreal list option" where
  "perturbed probs temperature u =
     (let noise = gumbel_noise_like u (length probs);
          logs = map log_x probs
      in if None \<in> set logs then None
         else Some (map2 (\<lambda>l n. add_fin (the l) (temperature * n)) logs noise))"

text \<open>
  \<^verbatim>\<open>torch.take_along_dim(sorted_confidence, num_to_mask, axis=-1)\<close> for one row: the index
  has to lie inside the row.
\<close>

definition take_along_dim :: "'a list \<Rightarrow> int \<Rightarrow> error + 'a" where
  "take_along_dim xs k = (if 0 \<le> k \<and> k < int (length xs) then Inr (xs ! nat k) else Inl IndexError)"

text \<open>
  \<^verbatim>\<open>mask_by_random_topk(num_to_mask, probs, temperature)\<close> for one batch row; \<open>u\<close> is the
  uniform draw behind its Gumbel noise. A row whose confidence would hold NaN is reported
  as \<open>NotANumber\<close>: the order of NaN is not modelled.
\<close>

definition mask_by_random_topk :: "int \<Rightarrow> xreal list \<Rightarrow> real \<Rightarrow> (nat \<Rightarrow> real) \<Rightarrow> error + bool list" where
  "mask_by_random_topk num_to_mask probs temperature u =
     (case perturbed probs temperature u of
        None \<Rightarrow> Inl NotANumber
      | Some confidence \<Rightarrow>
          (let sorted_confidence = sort confidence
           in case take_along_dim sorted_confidence num_to_mask of
                Inl e \<Rightarrow> Inl e
              | Inr cut_off \<Rightarrow> Inr (map (\<lambda>c. c < cut_off) confidence)))"

text \<open>
  The remasking rule in the words of the specification (section 4.4, step 3): the cut-off is
  the value at rank \<open>num_to_mask - 1\<close> of the sorted confidences. It is compared with
  \<open>mask_by_random_topk\<close> below.
\<close>

definition spec_mask_by_random_topk :: "int \<Rightarrow> xreal list \<Rightarrow> real \<Rightarrow> (nat \<Rightarrow> real) \<Rightarrow> error + bool list" where
  "spec_mask_by_random_topk num_to_mask probs temperature u =
     (case perturbed probs temperature u of
        None \<Rightarrow> Inl NotANumber
      | Some confidence \<Rightarrow>
          (case take_along_dim (sort confidence) (num_to_mask - 1) of
             Inl e \<Rightarrow> Inl e
           | Inr cut_off \<Rightarrow> Inr (map (\<lambda>c. c < cut_off) confidence)))"

section \<open>Tensor helpers\<close>

text \<open>A batched tensor operation fails as a whole when it fails on one row.\<close>

fun collect :: "('e + 'a) list \<Rightarrow> 'e + 'a list" where
  "collect [] = Inr []"
| "collect (r # rs) =
     (case r of
        Inl e \<Rightarrow> Inl e
      | Inr v \<Rightarrow> (case collect rs of Inl e \<Rightarrow> Inl e | Inr vs \<Rightarrow> Inr (v # vs)))"

text \<open>
  A three-dimensional tensor is a list of lists of lists; its shape is read off the first
  entries, and \<open>rect3\<close> says that the nested list is a tensor of that shape.
\<close>

definition shape3 :: "'a list list list \<Rightarrow> nat \<times> nat \<times> nat" where
  "shape3 g =
     (let b = length g;
          c = (if b = 0 then 0 else length (hd g));
          t = (if c = 0 then 0 else length (hd (hd g)))
      in (b, c, t))"

definition rect3 :: "'a list list list \<Rightarrow> bool" where
  "rect3 g =
     (case shape3 g of (b, c, t) \<Rightarrow>
        list_all (\<lambda>row. length row = c \<and> list_all (\<lambda>ch. length ch = t) row) g)"

text \<open>
  \<^verbatim>\<open>z.masked_fill(mask, value)\<close>: the mask is broadcast to the shape of \<open>z\<close>, a dimension
  of size one being repeated; any other disagreement of the shapes is an error.
\<close>

definition masked_fill :: "int list list list \<Rightarrow> bool list list list \<Rightarrow> int \<Rightarrow> error + int list list list" where
  "masked_fill z m v =
     (case shape3 z of (b, c, t) \<Rightarrow>
      case shape3 m of (mb, mc, mt) \<Rightarrow>
        if (mb = b \<or> mb = 1) \<and> (mc = c \<or> mc = 1) \<and> (mt = t \<or> mt = 1)
        then Inr (map (\<lambda>i. map (\<lambda>j. map (\<lambda>k.
                    if m ! (if mb = 1 then 0 else i) ! (if mc = 1 then 0 else j) ! (if mt = 1 then 0 else k)
                    then v else z ! i ! j ! k) [0..<t]) [0..<c]) [0..<b])
        else Inl ShapeError)"

text \<open>
  Modelled from the spec: \<^verbatim>\<open>codebook_flatten\<close> and \<^verbatim>\<open>codebook_unflatten\<close> of
  \<^verbatim>\<open>vampnet/util.py\<close>, which the sources at hand import but do not contain. The flat
  sequence interleaves the codebooks within each time step (the channel varies fastest), and
  unflattening is the exact inverse, failing when the length is not a multiple of the number
  of codebooks. Both are given for one batch element.
\<close>

definition codebook_flatten :: "'a list list \<Rightarrow> 'a list" where
  "codebook_flatten tokens =
     (let c = length tokens;
          t = (if c = 0 then 0 else length (hd tokens))
      in map (\<lambda>j. tokens ! (j mod c) ! (j div c)) [0..<t * c])"

definition codebook_unflatten :: "'a list \<Rightarrow> nat \<Rightarrow> error + 'a list list" where
  "codebook_unflatten flat_tokens n_c =
     (if n_c = 0 \<or> length flat_tokens mod n_c \<noteq> 0 then Inl ShapeError
      else Inr (map (\<lambda>ci. map (\<lambda>ti. flat_tokens ! (ti * n_c + ci)) [0..<length flat_tokens div n_c])
                  [0..<n_c]))"

section \<open>Typical-mass filtering\<close>

definition softmax :: "real list \<Rightarrow> real list" where
  "softmax x = map (\<lambda>v. exp v / sum_list (map exp x)) x"

definition log_softmax :: "real list \<Rightarrow> real list" where
  "log_softmax x = map (\<lambda>v. v - ln (sum_list (map exp x))) x"

definition cumsum :: "real list \<Rightarrow> real list" where
  "cumsum xs = map (\<lambda>n. sum_list (take (Suc n) xs)) [0..<length xs]"

text \<open>
  \<^verbatim>\<open>self.scatter(1, index, src)\<close> for one row: a copy of \<open>self\<close> in which entry
  \<open>index[j]\<close> is \<open>src[j]\<close>.
\<close>

definition scatter :: "'a list \<Rightarrow> nat list \<Rightarrow> 'a list \<Rightarrow> 'a list" where
  "scatter self index src = fold (\<lambda>j out. out[index ! j := src ! j]) [0..<length index] self"

text \<open>
  \<^verbatim>\<open>typical_filter\<close> on one row of logits (the rows of \<^verbatim>\<open>x_flat\<close> are treated
  independently). \<^verbatim>\<open>torch.sort\<close> returns the sorted deviations and their indices; among
  equal deviations the model takes the indices in ascending order. The \<^verbatim>\<open>gather\<close> of
  the cut-off fails when no prefix reaches the mass.
\<close>

definition typical_filter_row :: "real list \<Rightarrow> real \<Rightarrow> int \<Rightarrow> error + xreal list" where
  "typical_filter_row x_flat typical_mass typical_min_tokens =
     (let x_flat_norm = log_softmax x_flat;
          x_flat_norm_p = map exp x_flat_norm;
          entropy = - sum_list (map2 (*) x_flat_norm x_flat_norm_p);
          c_flat_shifted = map (\<lambda>l. \<bar>(- l) - entropy\<bar>) x_flat_norm;
          x_flat_indices = sort_key (\<lambda>i. c_flat_shifted ! i) [0..<length x_flat];
          c_flat_sorted = map (\<lambda>i. c_flat_shifted ! i) x_flat_indices;
          x_flat_cumsum = cumsum (softmax (map (\<lambda>i. x_flat ! i) x_flat_indices));
          last_ind = length (filter (\<lambda>s. s < typical_mass) x_flat_cumsum)
      in case take_along_dim c_flat_sorted (int last_ind) of
           Inl e \<Rightarrow> Inl e
         | Inr cut_off \<Rightarrow>
             (let sorted_indices_to_remove = map (\<lambda>c. c > cut_off) c_flat_sorted;
                  sorted_indices_to_remove =
                    (if typical_min_tokens > 1
                     then map (\<lambda>j. if int j < typical_min_tokens then False
                                    else sorted_indices_to_remove ! j)
                            [0..<length sorted_indices_to_remove]
                     else sorted_indices_to_remove);
                  indices_to_remove =
                    scatter sorted_indices_to_remove x_flat_indices sorted_indices_to_remove
              in Inr (map2 (\<lambda>r v. if r then NegInf else Fin v) indices_to_remove x_flat)))"

text \<open>\<^verbatim>\<open>typical_filter\<close> on the rows of one batch element; it returns the filtered logits.\<close>

definition typical_filter :: "real list list \<Rightarrow> real \<Rightarrow> int \<Rightarrow> error + xreal list list" where
  "typical_filter logits typical_mass typical_min_tokens =
     collect (map (\<lambda>x_flat. typical_filter_row x_flat typical_mass typical_min_tokens) logits)"

section \<open>The decoding loop\<close>

text \<open>
  The network and the schedule are collaborators of \<^verbatim>\<open>generate\<close>: \<open>forward M i z_masked b j\<close>
  is the row of logits that \<^verbatim>\<open>self.forward(self.embedding.from_codes(z_masked, codec))\<close>
  holds, after \<^verbatim>\<open>permute(0, 2, 1)\<close>, at batch row \<open>b\<close> and flat position \<open>j\<close> in step
  \<open>i\<close>; \<open>gamma\<close> is \<^verbatim>\<open>_gamma\<close> of \<^verbatim>\<open>vampnet/mask.py\<close>; \<open>mask_token\<close> is
  \<^verbatim>\<open>self.embedding.special_idxs["MASK"]\<close>.
\<close>

record vampnet =
  n_codebooks :: nat
  n_conditioning_codebooks :: nat
  mask_token :: int
  forward :: "nat \<Rightarrow> int list list list \<Rightarrow> nat \<Rightarrow> nat \<Rightarrow> real list"
  gamma :: "real \<Rightarrow> real"

text \<open>
  The random draws of a run: \<open>multinomial D i b j probs\<close> is the index that
  \<^verbatim>\<open>torch.multinomial\<close> draws in step \<open>i\<close> for batch row \<open>b\<close> and position \<open>j\<close>, and
  \<open>uniform D i b j\<close> the uniform draw behind the Gumbel noise there.
\<close>

record draws =
  multinomial :: "nat \<Rightarrow> nat \<Rightarrow> nat \<Rightarrow> real list \<Rightarrow> nat"
  uniform :: "nat \<Rightarrow> nat \<Rightarrow> nat \<Rightarrow> real"

datatype py_value = PyFloat real | PyInt int | PyTuple real real

datatype mask_tensor = Mask2 "int list list" | Mask3 "int list list list"

text \<open>The arguments of \<^verbatim>\<open>generate\<close>; \<^verbatim>\<open>return_signal\<close> is taken to be false.\<close>

record gen_args =
  time_steps :: nat
  sampling_steps :: int
  start_tokens :: "int list list list option"
  mask :: "mask_tensor option"
  temperature :: py_value
  typical_filtering :: bool
  typical_mass :: real
  typical_min_tokens :: int

text \<open>
  The variables that live across the iterations of the loop. \<^verbatim>\<open>sampled_z\<close> is not bound
  before the first iteration has assigned it.
\<close>

record state =
  st_z_masked :: "int list list list"
  st_mask :: "bool list list list"
  st_sampled_z :: "int list list option"

definition torch_where :: "bool list \<Rightarrow> 'a list \<Rightarrow> 'a list \<Rightarrow> 'a list" where
  "torch_where c a b = map (\<lambda>j. if c ! j then a ! j else b ! j) [0..<length c]"

text \<open>\<^verbatim>\<open>codebook_flatten(z_masked[:, self.n_conditioning_codebooks:, :])\<close>, one batch row.\<close>

definition flat_row :: "vampnet \<Rightarrow> int list list \<Rightarrow> int list" where
  "flat_row M row = codebook_flatten (drop (n_conditioning_codebooks M) row)"

text \<open>
  The probabilities that a step samples from, for one batch row: the logits of the network,
  the call of \<^verbatim>\<open>typical_filter\<close> when \<^verbatim>\<open>typical_filtering\<close> is set (the call can fail;
  what it returns is not assigned to anything), and the softmax of \<^verbatim>\<open>logits\<close>.
\<close>

definition probs_row :: "vampnet \<Rightarrow> gen_args \<Rightarrow> nat \<Rightarrow> int list list list \<Rightarrow> nat \<Rightarrow> error + real list list" where
  "probs_row M A i z_masked b =
     (let logits = map (forward M i z_masked b) [0..<length (flat_row M (z_masked ! b))]
      in case (if typical_filtering A
               then (case typical_filter logits (typical_mass A) (typical_min_tokens A) of
                       Inl e \<Rightarrow> Inl e
                     | Inr filtered \<Rightarrow> Inr logits)
               else Inr logits) of
           Inl e \<Rightarrow> Inl e
         | Inr logits \<Rightarrow> Inr (map softmax logits))"

text \<open>The tokens drawn by \<^verbatim>\<open>torch.multinomial(probs, 1)\<close>, one batch row.\<close>

definition sampled_row :: "draws \<Rightarrow> nat \<Rightarrow> nat \<Rightarrow> real list list \<Rightarrow> int list" where
  "sampled_row D i b probs = map (\<lambda>j. int (multinomial D i b j (probs ! j))) [0..<length probs]"

text \<open>
  \<^verbatim>\<open>selected_probs\<close> after \<^verbatim>\<open>torch.where(mask.bool(), selected_probs, torch.inf)\<close>,
  one batch row.
\<close>

definition confidence_row :: "vampnet \<Rightarrow> draws \<Rightarrow> gen_args \<Rightarrow> nat \<Rightarrow> int list list list \<Rightarrow> nat \<Rightarrow> error + xreal list" where
  "confidence_row M D A i z_masked b =
     (let zf = flat_row M (z_masked ! b);
          mask = map (\<lambda>v. v = mask_token M) zf
      in case probs_row M A i z_masked b of
           Inl e \<Rightarrow> Inl e
         | Inr probs \<Rightarrow>
             (case collect (map2 take_along_dim probs (sampled_row D i b probs)) of
                Inl e \<Rightarrow> Inl e
              | Inr selected_probs \<Rightarrow>
                  Inr (torch_where mask (map Fin selected_probs) (replicate (length zf) PosInf))))"

text \<open>
  The body of the loop for one batch row, up to the new flat \<^verbatim>\<open>z_masked\<close>: it yields the
  flat \<^verbatim>\<open>z_masked\<close>, \<^verbatim>\<open>mask\<close> and \<^verbatim>\<open>sampled_z\<close> of lines 299, 294 and 270.
  \<open>N\<close> is \<^verbatim>\<open>num_mask_tokens_at_start\<close> and \<open>temp\<close> the temperature.
\<close>

definition step_row :: "vampnet \<Rightarrow> draws \<Rightarrow> gen_args \<Rightarrow> real \<Rightarrow> nat \<Rightarrow> nat \<Rightarrow> int list list list \<Rightarrow> nat
    \<Rightarrow> error + (int list \<times> bool list \<times> int list)" where
  "step_row M D A temp N i z_masked b =
     (let r = real (i + 1) / real_of_int (sampling_steps A);
          zf = flat_row M (z_masked ! b);
          mask = map (\<lambda>v. v = mask_token M) zf
      in case probs_row M A i z_masked b of
           Inl e \<Rightarrow> Inl e
         | Inr probs \<Rightarrow>
             (case confidence_row M D A i z_masked b of
                Inl e \<Rightarrow> Inl e
              | Inr selected_probs \<Rightarrow>
                  (let sampled_z = torch_where mask (sampled_row D i b probs) zf;
                       num_to_mask = \<lfloor>gamma M r * real N\<rfloor>;
                       num_to_mask =
                         (if int i \<noteq> sampling_steps A - 1
                          then max 1 (min (int (length (filter id mask)) - 1) num_to_mask)
                          else num_to_mask)
                   in case mask_by_random_topk num_to_mask selected_probs (temp * (1 - r))
                             (uniform D i b) of
                        Inl e \<Rightarrow> Inl e
                      | Inr new_mask \<Rightarrow>
                          Inr (torch_where new_mask (replicate (length zf) (mask_token M)) sampled_z,
                               new_mask, sampled_z))))"

text \<open>
  One iteration of the loop on the whole batch: the rows, \<^verbatim>\<open>codebook_unflatten\<close> of
  \<^verbatim>\<open>z_masked\<close> and \<^verbatim>\<open>mask\<close>, and the conditioning codebooks of \<open>z\<close> put back in front.
\<close>

definition step :: "vampnet \<Rightarrow> draws \<Rightarrow> gen_args \<Rightarrow> real \<Rightarrow> nat \<Rightarrow> int list list list \<Rightarrow> nat \<Rightarrow> state
    \<Rightarrow> error + state" where
  "step M D A temp N z i st =
     (let n_infer_codebooks = n_codebooks M - n_conditioning_codebooks M
      in case collect (map (step_row M D A temp N i (st_z_masked st)) [0..<length (st_z_masked st)]) of
           Inl e \<Rightarrow> Inl e
         | Inr rows \<Rightarrow>
             (case collect (map (\<lambda>row. codebook_unflatten (fst row) n_infer_codebooks) rows) of
                Inl e \<Rightarrow> Inl e
              | Inr z_masked \<Rightarrow>
                  (case collect (map (\<lambda>row. codebook_unflatten (fst (snd row)) n_infer_codebooks) rows) of
                     Inl e \<Rightarrow> Inl e
                   | Inr new_mask \<Rightarrow>
                       Inr \<lparr>st_z_masked =
                              map2 (\<lambda>zr u. take (n_conditioning_codebooks M) zr @ u) z z_masked,
                            st_mask = new_mask,
                            st_sampled_z = Some (map (\<lambda>row. snd (snd row)) rows)\<rparr>)))"

text \<open>
  \<^verbatim>\<open>for i in range(sampling_steps)\<close>: the number of iterations entered, the state after
  each iteration that finished, and the error that stopped the loop, if any.
\<close>

fun sampling_loop :: "(nat \<Rightarrow> state \<Rightarrow> error + state) \<Rightarrow> nat list \<Rightarrow> state \<Rightarrow> nat \<times> state list \<times> error option" where
  "sampling_loop body [] st = (0, [], None)"
| "sampling_loop body (i # is) st =
     (case body i st of
        Inl e \<Rightarrow> (1, [], Some e)
      | Inr st' \<Rightarrow>
          (case sampling_loop body is st' of (n, tr, e) \<Rightarrow> (Suc n, st' # tr, e)))"

text \<open>
  What a call of \<^verbatim>\<open>generate\<close> did: how many iterations of the loop it entered, the states
  it went through (the state before the loop first), and what it returned or raised.
\<close>

record run =
  entered :: nat
  trace :: "state list"
  result :: "error + int list list list"

definition resolve_z :: "vampnet \<Rightarrow> gen_args \<Rightarrow> int list list list" where
  "resolve_z M A =
     (case start_tokens A of
        Some z \<Rightarrow> z
      | None \<Rightarrow> [replicate (n_codebooks M) (replicate (time_steps A) (mask_token M))])"

definition resolve_mask :: "vampnet \<Rightarrow> gen_args \<Rightarrow> int list list list \<Rightarrow> int list list list" where
  "resolve_mask M A z =
     (case mask A of
        None \<Rightarrow>
          map (\<lambda>row. map (\<lambda>c. map (\<lambda>v. if c < n_conditioning_codebooks M then 0 else 1) (row ! c))
                       [0..<length row]) z
      | Some (Mask2 m) \<Rightarrow> map (\<lambda>row. replicate (fst (snd (shape3 z))) row) m
      | Some (Mask3 m) \<Rightarrow> m)"

definition num_mask_tokens :: "int \<Rightarrow> int list list list \<Rightarrow> nat" where
  "num_mask_tokens tok z_masked =
     sum_list (map (\<lambda>row. sum_list (map (\<lambda>ch. count_list ch tok) row)) z_masked)"

definition generate_run :: "vampnet \<Rightarrow> draws \<Rightarrow> gen_args \<Rightarrow> run" where
  "generate_run M D A =
     (case temperature A of
        PyFloat temp \<Rightarrow>
          (let z = resolve_z M A;
               mask = resolve_mask M A z;
               mask_bool = map (map (map (\<lambda>v. v \<noteq> 0))) mask
           in case masked_fill z mask_bool (mask_token M) of
                Inl e \<Rightarrow> \<lparr>entered = 0, trace = [], result = Inl e\<rparr>
              | Inr z_masked \<Rightarrow>
                  (let num_mask_tokens_at_start = num_mask_tokens (mask_token M) z_masked;
                       n_infer_codebooks = n_codebooks M - n_conditioning_codebooks M;
                       st0 = \<lparr>st_z_masked = z_masked, st_mask = mask_bool, st_sampled_z = None\<rparr>
                   in case sampling_loop (step M D A temp num_mask_tokens_at_start z)
                             [0..<nat (sampling_steps A)] st0 of
                        (n, tr, Some e) \<Rightarrow> \<lparr>entered = n, trace = st0 # tr, result = Inl e\<rparr>
                      | (n, tr, None) \<Rightarrow>
                          \<lparr>entered = n, trace = st0 # tr,
                           result =
                             (case st_sampled_z (last (st0 # tr)) of
                                None \<Rightarrow> Inl UnboundLocalError
                              | Some sampled_z \<Rightarrow>
                                  (case collect (map (\<lambda>row. codebook_unflatten row n_infer_codebooks)
                                                  sampled_z) of
                                     Inl e \<Rightarrow> Inl e
                                   | Inr sampled_z \<Rightarrow>
                                       Inr (map2 (\<lambda>zr u. take (n_conditioning_codebooks M) zr @ u)
                                              z sampled_z)))\<rparr>))
      | _ \<Rightarrow> \<lparr>entered = 0, trace = [], result = Inl AssertionError\<rparr>)"

definition generate :: "vampnet \<Rightarrow> draws \<Rightarrow> gen_args \<Rightarrow> error + int list list list" where
  "generate M D A = result (generate_run M D A)"

section \<open>Example inputs\<close>

text \<open>
  A small network with two codebooks, the first of them conditioning, a vocabulary of two
  tokens and the mask token 2; its logits are all zero and its schedule is linear. The draws
  always pick token 0, and every uniform draw is one half.
\<close>

definition ex_model :: vampnet where
  "ex_model = \<lparr>n_codebooks = 2, n_conditioning_codebooks = 1, mask_token = 2,
                forward = (\<lambda>i z b j. [0, 0]), gamma = (\<lambda>r. 1 - r)\<rparr>"

definition ex_uniform :: "nat \<Rightarrow> real" where
  "ex_uniform j = 1 / 2"

definition ex_draws :: draws where
  "ex_draws = \<lparr>multinomial = (\<lambda>i b j probs. 0), uniform = (\<lambda>i b. ex_uniform)\<rparr>"

definition ex_args :: gen_args where
  "ex_args = \<lparr>time_steps = 2, sampling_steps = 2, start_tokens = Some [[[0, 1], [1, 0]]],
               mask = None, temperature = PyFloat 1, typical_filtering = False,
               typical_mass = 1 / 5, typical_min_tokens = 1\<rparr>"

section \<open>The temperature check\<close>

text \<open>
  C10. Whenever the \<^verbatim>\<open>temperature\<close> argument of \<^verbatim>\<open>generate\<close> is not a Python float (the
  tuple of the type annotation and a plain integer included), the call raises an assertion
  error; it has resolved no token grid and entered no iteration of the loop by then.
\<close>

theorem generate_asserts_float_temperature:
  assumes "\<forall>x. temperature A \<noteq> PyFloat x"
  shows "generate M D A = Inl AssertionError \<and> entered (generate_run M D A) = 0
         \<and> trace (generate_run M D A) = []"
  using assms by (cases "temperature A") (simp_all add: generate_def generate_run_def)

theorem generate_asserts_float_temperature_witness:
  "(\<forall>x. temperature (ex_args\<lparr>temperature := PyTuple 1 2\<rparr>) \<noteq> PyFloat x)
   \<and> generate ex_model ex_draws (ex_args\<lparr>temperature := PyTuple 1 2\<rparr>) = Inl AssertionError
   \<and> (\<forall>x. temperature (ex_args\<lparr>temperature := PyInt 8\<rparr>) \<noteq> PyFloat x)
   \<and> generate ex_model ex_draws (ex_args\<lparr>temperature := PyInt 8\<rparr>) = Inl AssertionError"
  using generate_asserts_float_temperature[of "ex_args\<lparr>temperature := PyTuple 1 2\<rparr>" ex_model ex_draws]
        generate_asserts_float_temperature[of "ex_args\<lparr>temperature := PyInt 8\<rparr>" ex_model ex_draws]
  by simp

end
